theory Spec2Isabelle
  imports Main "HOL-Library.Multiset" "HOL-Library.Char_ord" "HOL-Library.List_Lexorder"
begin

section \<open>Python strings\<close>

text \<open>
  A Python \<open>str\<close> is modelled as a \<open>string\<close> whose characters are the code points
  below 256. On that range \<open>str.lower\<close> moves \<open>A..Z\<close> and the accented capitals
  \<open>192..222\<close> (without the multiplication sign \<open>215\<close>) up by 32 and leaves every other
  character alone, and the characters that \<open>str.strip\<close> removes are
  \<open>9..13\<close>, \<open>28..32\<close>, \<open>133\<close> and \<open>160\<close>.
\<close>

definition py_lower_char :: "char \<Rightarrow> char" where
  "py_lower_char c =
     (let n = (of_char c :: nat)
      in if (65 \<le> n \<and> n \<le> 90) \<or> (192 \<le> n \<and> n \<le> 222 \<and> n \<noteq> 215)
         then char_of (n + 32) else c)"

definition py_lower :: "string \<Rightarrow> string" where
  "py_lower s = map py_lower_char s"

definition py_isspace :: "char \<Rightarrow> bool" where
  "py_isspace c =
     (let n = (of_char c :: nat)
      in (9 \<le> n \<and> n \<le> 13) \<or> (28 \<le> n \<and> n \<le> 32) \<or> n = 133 \<or> n = 160)"

definition py_strip :: "string \<Rightarrow> string" where
  "py_strip s = rev (dropWhile py_isspace (rev (dropWhile py_isspace s)))"

text \<open>\<open>s.replace(old, new)\<close> for one-character \<open>old\<close> and \<open>new\<close>.\<close>

definition py_replace :: "char \<Rightarrow> char \<Rightarrow> string \<Rightarrow> string" where
  "py_replace old new s = map (\<lambda>c. if c = old then new else c) s"

definition startswith :: "string \<Rightarrow> string \<Rightarrow> bool" where
  "startswith s p = (take (length p) s = p)"

section \<open>The table\<close>

text \<open>
  A cell of the table that \<open>pd.read_csv\<close> returns is missing (the float NaN), a
  number, a truth value or text. A number is kept as the text that \<open>str\<close> writes for
  it (\<open>3\<close>, \<open>0.5\<close>), which is all that the program can see of it. A row gives the cell
  of every column name; \<open>columns\<close> lists the names of the header.
\<close>

datatype cell = NaN | Num string | Bool bool | Str string

type_synonym row = "string \<Rightarrow> cell"

record dataframe =
  columns :: "string list"
  rows :: "row list"

text \<open>The globals that the dataset section leaves behind: \<open>df\<close> and \<open>symptom_cols\<close>.\<close>

record app_state =
  df :: dataframe
  symptom_cols :: "string list"

text \<open>
  What is at a path: a file that \<open>pd.read_csv\<close> parses to a table, or a file on which
  it raises (an empty file, malformed lines, bytes that are not text, a directory).
\<close>

datatype csv_file = Table dataframe | Unreadable

datatype startup_error = FileNotFound | ReadError | MissingColumns | AttributeError

text \<open>\<open>df[col]\<close>, the values of one column, and \<open>df[col] = f(df[col])\<close> cell by cell.\<close>

definition column_values :: "dataframe \<Rightarrow> string \<Rightarrow> cell list" where
  "column_values d col = map (\<lambda>r. r col) (rows d)"

definition assign_column :: "string \<Rightarrow> (cell \<Rightarrow> cell) \<Rightarrow> dataframe \<Rightarrow> dataframe" where
  "assign_column col f d = d\<lparr>rows := map (\<lambda>r. r(col := f (r col))) (rows d)\<rparr>"

text \<open>
  The \<open>.str\<close> accessor exists on a column of text only: on a column without rows and
  on a column that holds some text. A column with rows and no text in it (numbers,
  truth values, missing cells only) is not a text column, and \<open>.str\<close> raises
  AttributeError on it.
\<close>

fun is_text :: "cell \<Rightarrow> bool" where
  "is_text (Str s) = True"
| "is_text v = False"

definition str_accessor_ok :: "cell list \<Rightarrow> bool" where
  "str_accessor_ok vs = (vs = [] \<or> (\<exists>v \<in> set vs. is_text v))"

text \<open>
  \<open>.str.strip()\<close> on one cell of a text column: text is stripped, and a cell that is
  not text comes out missing.
\<close>

fun str_strip :: "cell \<Rightarrow> cell" where
  "str_strip (Str s) = Str (py_strip s)"
| "str_strip v = NaN"

text \<open>
  \<open>.astype(str)\<close> on one cell: the missing cell becomes the text \<open>nan\<close>, a number its
  text, a truth value \<open>True\<close> or \<open>False\<close>.
\<close>

fun astype_str :: "cell \<Rightarrow> string" where
  "astype_str NaN = ''nan''"
| "astype_str (Num n) = n"
| "astype_str (Bool b) = (if b then ''True'' else ''False'')"
| "astype_str (Str s) = s"

text \<open>Line 39, \<open>.astype(str).str.lower().str.strip()\<close>, on one cell.\<close>

definition symptom_cell :: "cell \<Rightarrow> cell" where
  "symptom_cell v = Str (py_strip (py_lower (astype_str v)))"

definition is_symptom_col :: "string \<Rightarrow> bool" where
  "is_symptom_col c = startswith (py_lower c) ''symptom''"

text \<open>
  Lines 25 to 39. The file system says what is at a path, or nothing when no file is
  there. \<open>st.error\<close> followed by \<open>st.stop\<close> ends the script: \<open>FileNotFound\<close> and
  \<open>MissingColumns\<close> are those two stops. \<open>ReadError\<close> is an exception of line 26
  other than FileNotFoundError and \<open>AttributeError\<close> the exception of line 37; nothing
  catches them.
\<close>

definition load_dataset :: "(string \<rightharpoonup> csv_file) \<Rightarrow> startup_error + app_state" where
  "load_dataset fs =
     (case fs ''dataset.csv'' of
        None \<Rightarrow> Inl FileNotFound
      | Some Unreadable \<Rightarrow> Inl ReadError
      | Some (Table d) \<Rightarrow>
          let cols = filter is_symptom_col (columns d)
          in if ''condition'' \<notin> set (columns d) \<or> cols = [] then Inl MissingColumns
             else if \<not> str_accessor_ok (column_values d ''condition'') then Inl AttributeError
             else Inr \<lparr>df = fold (\<lambda>col. assign_column col symptom_cell) cols
                                (assign_column ''condition'' str_strip d),
                       symptom_cols = cols\<rparr>)"

section \<open>Symptom match\<close>

text \<open>
  Truth value of a cell in \<open>if s\<close>: the empty text is false, NaN is a non-zero float,
  and a number is false when it is zero.
\<close>

fun truthy :: "cell \<Rightarrow> bool" where
  "truthy NaN = True"
| "truthy (Num n) = (n \<notin> {''0'', ''0.0'', ''-0.0''})"
| "truthy (Bool b) = b"
| "truthy (Str s) = (s \<noteq> [])"

text \<open>Line 43: the token that a selected symptom is turned into.\<close>

definition query_token :: "string \<Rightarrow> string" where
  "query_token s = py_replace CHR '' '' CHR ''_'' (py_strip (py_lower s))"

text \<open>Lines 47 to 50: the set built from \<open>row[symptom_cols].values\<close>.\<close>

definition row_symptoms :: "string list \<Rightarrow> row \<Rightarrow> cell set" where
  "row_symptoms cols r = set (filter (\<lambda>s. truthy s \<and> s \<noteq> Str ''nan'') (map r cols))"

text \<open>
  \<open>matched_conditions\<close> is a Python set. The order in which \<open>list\<close> enumerates it is
  not fixed by the language; the model keeps the elements without duplicates in the
  order of their first insertion, and the theorems below speak about the set of the
  result. All missing conditions are the one value \<open>NaN\<close>.
\<close>

definition set_add :: "'a \<Rightarrow> 'a list \<Rightarrow> 'a list" where
  "set_add x xs = (if x \<in> set xs then xs else xs @ [x])"

fun iterrows_loop :: "string list \<Rightarrow> string list \<Rightarrow> row list \<Rightarrow> cell list \<Rightarrow> cell list" where
  "iterrows_loop cols user_symptoms [] matched_conditions = matched_conditions"
| "iterrows_loop cols user_symptoms (r # rs) matched_conditions =
     iterrows_loop cols user_symptoms rs
       (if row_symptoms cols r \<inter> Str ` set user_symptoms \<noteq> {}
        then set_add (r ''condition'') matched_conditions
        else matched_conditions)"

definition retrieve_conditions :: "app_state \<Rightarrow> string list \<Rightarrow> cell list" where
  "retrieve_conditions st user_symptoms =
     iterrows_loop (symptom_cols st) (map query_token user_symptoms) (rows (df st)) []"

text \<open>
  The same function statement by statement, on a store: the globals and the frame of
  the call with its two local names. Line 43 rebinds \<open>user_symptoms\<close>, line 44 binds
  \<open>matched_conditions\<close>, lines 47 to 52 are the body of the loop over the rows that
  \<open>df\<close> has when the loop starts. Line 54 returns \<open>list(matched_conditions)\<close>: the
  order in which a Python set is enumerated follows the hashes of its strings, which
  change from one process to the next, so the order of the process is a parameter,
  \<open>enum\<close>. The call gives the returned list and the globals it leaves behind;
  \<open>run_calls\<close> is a sequence of calls in one process.
\<close>

record frame =
  user_symptoms :: "string list"
  matched_conditions :: "cell list"

type_synonym store = "app_state \<times> frame"

definition line_43 :: "store \<Rightarrow> store" where
  "line_43 s = (fst s, (snd s)\<lparr>user_symptoms := map query_token (user_symptoms (snd s))\<rparr>)"

definition line_44 :: "store \<Rightarrow> store" where
  "line_44 s = (fst s, (snd s)\<lparr>matched_conditions := []\<rparr>)"

definition lines_47_52 :: "row \<Rightarrow> store \<Rightarrow> store" where
  "lines_47_52 r s =
     (if row_symptoms (symptom_cols (fst s)) r \<inter> Str ` set (user_symptoms (snd s)) \<noteq> {}
      then (fst s, (snd s)\<lparr>matched_conditions :=
                             set_add (r ''condition'') (matched_conditions (snd s))\<rparr>)
      else s)"

definition retrieve_conditions_call ::
    "(cell list \<Rightarrow> cell list) \<Rightarrow> string list \<Rightarrow> app_state \<Rightarrow> cell list \<times> app_state" where
  "retrieve_conditions_call enum selected g =
     (let s0 = (g, \<lparr>user_symptoms = selected, matched_conditions = []\<rparr>);
          s1 = line_44 (line_43 s0);
          s2 = fold lines_47_52 (rows (df (fst s1))) s1
      in (enum (matched_conditions (snd s2)), fst s2))"


section \<open>Symptom chips\<close>

text \<open>
  \<open>.dropna()\<close> drops the missing cells, \<open>.unique()\<close> keeps the first occurrence of
  each value. After line 39 a symptom column holds text only; the texts are what
  \<open>dropna\<close> returns.
\<close>

fun dropna :: "cell list \<Rightarrow> string list" where
  "dropna [] = []"
| "dropna (Str s # vs) = s # dropna vs"
| "dropna (v # vs) = dropna vs"

definition unique :: "'a list \<Rightarrow> 'a list" where
  "unique xs = rev (remdups (rev xs))"

text \<open>Lines 159 to 166: the options of the multiselect.\<close>

definition all_symptoms :: "app_state \<Rightarrow> string list" where
  "all_symptoms st =
     sort (remdups (concat (map
       (\<lambda>col. map (py_replace CHR ''_'' CHR '' '')
                 (filter (\<lambda>s. s \<noteq> ''nan'') (unique (dropna (column_values (df st) col)))))
       (symptom_cols st))))"

section \<open>The model call and its fallback\<close>

text \<open>
  What \<open>json.loads\<close> returns. A dict is the list of its items, keys distinct; the value
  of a number plays no part below.
\<close>

datatype json = JNull | JBool bool | JNum int | JStr string | JArr "json list"
  | JObj "(string \<times> json) list"

text \<open>
  \<open>llm.invoke\<close> and reading \<open>response.content\<close> either raise (a failed call, a timeout)
  or give the text of the reply.
\<close>

datatype llm_result = Raised | Content string

datatype ui_error = KeyError | TypeError

definition py_find :: "char \<Rightarrow> string \<Rightarrow> int" where
  "py_find c s = (if c \<in> set s then int (length (takeWhile (\<lambda>x. x \<noteq> c) s)) else - 1)"

definition py_rfind :: "char \<Rightarrow> string \<Rightarrow> int" where
  "py_rfind c s =
     (if c \<in> set s then int (length s) - 1 - int (length (takeWhile (\<lambda>x. x \<noteq> c) (rev s)))
      else - 1)"

text \<open>\<open>s[a:b]\<close>: a negative bound counts from the end, and both are cut to the string.\<close>

definition slice_bound :: "int \<Rightarrow> int \<Rightarrow> int" where
  "slice_bound n i = (let j = (if i < 0 then i + n else i) in if j < 0 then 0 else if n < j then n else j)"

definition py_slice :: "string \<Rightarrow> int \<Rightarrow> int \<Rightarrow> string" where
  "py_slice s a b =
     (let n = int (length s); lo = slice_bound n a; hi = slice_bound n b
      in take (nat (hi - lo)) (drop (nat lo) s))"

text \<open>Lines 63 to 75: the system message, line by line.\<close>

definition system_prompt :: string where
  \<open>system_prompt =
     ''\<newline>'' @
     ''You are a health assistant.\<newline>'' @
     ''STRICT RULES:\<newline>'' @
     ''- DO NOT diagnose diseases\<newline>'' @
     ''- DO NOT suggest medicines\<newline>'' @
     ''- Output ONLY valid JSON\<newline>'' @
     ''JSON FORMAT:\<newline>'' @
     ''{\<newline>'' @
     ''  "possible_conditions": ["Condition1"],\<newline>'' @
     ''  "next_steps": "General health guidance",\<newline>'' @
     ''  "disclaimer": "This is not medical advice"\<newline>'' @
     ''}\<newline>''\<close>

text \<open>
  Lines 77 to 80 make a template of the two messages. A message is a format string:
  a single \<open>{\<close> opens a field, whose name runs up to \<open>:\<close>, \<open>!\<close> or the closing brace;
  after \<open>:\<close> comes a format specification, which ends at the brace that closes the
  field; \<open>{{\<close> and \<open>}}\<close> are the two braces as text. \<open>template_fields\<close> reads the
  names of the fields of a message that is well formed; they are the variables of the
  template.
\<close>

datatype scan = Literal | Name string | Spec nat

fun template_fields :: "scan \<Rightarrow> string \<Rightarrow> string list" where
  "template_fields s [] = []"
| "template_fields Literal (c # cs) =
     (if c = CHR ''{'' then
        (case cs of
           [] \<Rightarrow> []
         | d # ds \<Rightarrow> if d = CHR ''{'' then template_fields Literal ds
                    else template_fields (Name []) cs)
      else if c = CHR ''}'' then
        (case cs of
           [] \<Rightarrow> []
         | d # ds \<Rightarrow> if d = CHR ''}'' then template_fields Literal ds
                    else template_fields Literal cs)
      else template_fields Literal cs)"
| "template_fields (Name n) (c # cs) =
     (if c = CHR ''}'' then rev n # template_fields Literal cs
      else if c = CHR '':'' \<or> c = CHR ''!'' then rev n # template_fields (Spec 0) cs
      else template_fields (Name (c # n)) cs)"
| "template_fields (Spec d) (c # cs) =
     (if c = CHR ''{'' then template_fields (Spec (Suc d)) cs
      else if c = CHR ''}'' then
        (case d of 0 \<Rightarrow> template_fields Literal cs | Suc e \<Rightarrow> template_fields (Spec e) cs)
      else template_fields (Spec d) cs)"

definition prompt_variables :: "string list" where
  "prompt_variables = template_fields Literal system_prompt @ template_fields Literal ''{input}''"

text \<open>
  \<open>prompt.format_prompt(**kwargs)\<close> raises KeyError when a variable of the template
  is not among the names given: \<open>missing_variables\<close> are those variables.
\<close>

definition missing_variables :: "string list \<Rightarrow> string list" where
  "missing_variables given = filter (\<lambda>v. v \<notin> set given) prompt_variables"

text \<open>
  Lines 194 to 198, the body of the \<open>try\<close>: nothing when any statement of it raised,
  the parsed value otherwise. Line 194 first formats the prompt, giving it \<open>input\<close>
  and nothing else, and then calls the model. \<open>json_loads\<close> stands for \<open>json.loads\<close>,
  which gives nothing when it raises.
\<close>

definition try_block :: "(string \<Rightarrow> json option) \<Rightarrow> llm_result \<Rightarrow> json option" where
  "try_block json_loads response =
     (if missing_variables [''input''] \<noteq> [] then None
      else case response of
             Raised \<Rightarrow> None
           | Content c \<Rightarrow>
               let raw_text = py_strip c;
                   start = py_find CHR ''{'' raw_text;
                   endpos = py_rfind CHR ''}'' raw_text + 1
               in json_loads (py_slice raw_text start endpos))"

text \<open>Lines 200 to 204: the result of the \<open>except\<close> branch.\<close>

definition fallback :: "string list \<Rightarrow> json" where
  "fallback retrieved_conditions =
     JObj [(''possible_conditions'',
              JArr (map JStr (if retrieved_conditions = [] then [''Unknown''] else retrieved_conditions))),
           (''next_steps'', JStr ''Consult a healthcare professional.''),
           (''disclaimer'', JStr ''This is not medical advice'')]"

text \<open>\<open>result[key]\<close>: KeyError on a dict without the key, TypeError on anything but a dict.\<close>

fun subscript :: "json \<Rightarrow> string \<Rightarrow> ui_error + json" where
  "subscript (JObj items) k = (case map_of items k of None \<Rightarrow> Inl KeyError | Some v \<Rightarrow> Inr v)"
| "subscript v k = Inl TypeError"

definition py_join :: "string \<Rightarrow> string list \<Rightarrow> string" where
  "py_join sep xs = (case xs of [] \<Rightarrow> [] | y # ys \<Rightarrow> y @ concat (map (\<lambda>x. sep @ x) ys))"

fun str_items :: "json list \<Rightarrow> string list option" where
  "str_items [] = Some []"
| "str_items (JStr s # vs) = map_option (\<lambda>xs. s # xs) (str_items vs)"
| "str_items (v # vs) = None"

text \<open>
  \<open>", ".join(v)\<close>: a list must hold text only, a text is joined character by character,
  a dict by its keys, and anything else is not iterable.
\<close>

fun join_json :: "json \<Rightarrow> ui_error + string" where
  "join_json (JArr vs) = (case str_items vs of None \<Rightarrow> Inl TypeError | Some xs \<Rightarrow> Inr (py_join '', '' xs))"
| "join_json (JStr s) = Inr (py_join '', '' (map (\<lambda>c. [c]) s))"
| "join_json (JObj items) = Inr (py_join '', '' (map fst items))"
| "join_json v = Inl TypeError"

text \<open>
  Lines 207 to 214: the three cards. The first holds the joined text, the other two
  the values that the f-strings print. An exception ends the script with an error on
  the page.
\<close>

record cards =
  possible_conditions :: string
  next_steps :: json
  disclaimer :: json

definition render :: "json \<Rightarrow> ui_error + cards" where
  "render result =
     (case subscript result ''possible_conditions'' of
        Inl e \<Rightarrow> Inl e
      | Inr pc \<Rightarrow>
         (case join_json pc of
            Inl e \<Rightarrow> Inl e
          | Inr joined \<Rightarrow>
             (case subscript result ''next_steps'' of
                Inl e \<Rightarrow> Inl e
              | Inr ns \<Rightarrow>
                 (case subscript result ''disclaimer'' of
                    Inl e \<Rightarrow> Inl e
                  | Inr dc \<Rightarrow> Inr \<lparr>possible_conditions = joined, next_steps = ns, disclaimer = dc\<rparr>))))"

text \<open>
  Line 187 joins the retrieved conditions: one that is not text (a missing one is a
  float) raises TypeError.
\<close>

fun cells_text :: "cell list \<Rightarrow> string list option" where
  "cells_text [] = Some []"
| "cells_text (Str s # vs) = map_option (\<lambda>xs. s # xs) (cells_text vs)"
| "cells_text (v # vs) = None"

datatype outcome = NoSelection | Crashed ui_error | Shown cards

text \<open>
  Lines 176 to 214: what pressing the button leads to, in a process with the order of
  enumeration \<open>enum\<close>.
\<close>

definition analyze ::
    "(cell list \<Rightarrow> cell list) \<Rightarrow> (string \<Rightarrow> json option) \<Rightarrow> llm_result \<Rightarrow> app_state \<Rightarrow> string list
      \<Rightarrow> outcome" where
  "analyze enum json_loads response st selected_symptoms =
     (if selected_symptoms = [] then NoSelection
      else
        let retrieved_conditions = fst (retrieve_conditions_call enum selected_symptoms st)
        in case cells_text retrieved_conditions of
             None \<Rightarrow> Crashed TypeError
           | Some names \<Rightarrow>
               let result = (case try_block json_loads response of
                               None \<Rightarrow> fallback names
                             | Some r \<Rightarrow> r)
               in (case render result of Inl e \<Rightarrow> Crashed e | Inr c \<Rightarrow> Shown c))"

section \<open>Example tables\<close>

text \<open>
  The table with the rows (Flu: fever, cough) and (Cold: cough, sneezing), and globals
  that hold it. A table as a file may have it, with capitals, spaces around the
  fields, an empty field, a field of spaces and a column that is no symptom. A table
  with a symptom spelled NAN; a table with a symptom written with a space and one
  that begins with an underscore; and a table whose only row has an empty condition
  field.
\<close>

definition flu_cold_table :: dataframe where
  "flu_cold_table =
     \<lparr>columns = [''condition'', ''Symptom_1'', ''Symptom_2''],
      rows = [(\<lambda>_. NaN)(''condition'' := Str ''Flu'',
                         ''Symptom_1'' := Str ''fever'', ''Symptom_2'' := Str ''cough''),
              (\<lambda>_. NaN)(''condition'' := Str ''Cold'',
                         ''Symptom_1'' := Str ''cough'', ''Symptom_2'' := Str ''sneezing'')]\<rparr>"

definition flu_cold_state :: app_state where
  "flu_cold_state = \<lparr>df = flu_cold_table, symptom_cols = [''Symptom_1'', ''Symptom_2'']\<rparr>"

definition angina_cold_table :: dataframe where
  "angina_cold_table =
     \<lparr>columns = [''condition'', ''Symptom_1'', ''SYMPTOM_2'', ''notes''],
      rows = [(\<lambda>_. NaN)(''condition'' := Str '' Angina  '',
                         ''Symptom_1'' := Str '' Chest_Pain'', ''notes'' := Str ''Sore_Throat''),
              (\<lambda>_. NaN)(''condition'' := Str ''Cold'',
                         ''Symptom_1'' := Str ''Sore_Throat '', ''SYMPTOM_2'' := Str ''   '',
                         ''notes'' := Num ''3'')]\<rparr>"

definition nan_spelled_table :: dataframe where
  "nan_spelled_table =
     \<lparr>columns = [''condition'', ''Symptom_1''],
      rows = [(\<lambda>_. NaN)(''condition'' := Str ''Flu'', ''Symptom_1'' := Str ''NAN'')]\<rparr>"

definition spaced_token_table :: dataframe where
  "spaced_token_table =
     \<lparr>columns = [''condition'', ''Symptom_1''],
      rows = [(\<lambda>_. NaN)(''condition'' := Str ''Angina'', ''Symptom_1'' := Str ''Chest Pain''),
              (\<lambda>_. NaN)(''condition'' := Str ''Flu'', ''Symptom_1'' := Str ''_fever'')]\<rparr>"

definition blank_condition_table :: dataframe where
  "blank_condition_table =
     \<lparr>columns = [''condition'', ''Symptom_1''],
      rows = [(\<lambda>_. NaN)(''Symptom_1'' := Str ''fever'')]\<rparr>"

definition numeric_condition_table :: dataframe where
  "numeric_condition_table =
     \<lparr>columns = [''condition'', ''Symptom_1''],
      rows = [(\<lambda>_. NaN)(''condition'' := Num ''1'', ''Symptom_1'' := Str ''fever''),
              (\<lambda>_. NaN)(''condition'' := Num ''2'', ''Symptom_1'' := Str ''cough'')]\<rparr>"

section \<open>Properties of the string functions\<close>

lemma py_lower_char_idem: "py_lower_char (py_lower_char c) = py_lower_char c"
  by (auto simp: py_lower_char_def Let_def)

lemma py_isspace_lower: "py_isspace (py_lower_char c) = py_isspace c"
  by (auto simp: py_lower_char_def py_isspace_def Let_def)

lemma char_eq_code: "c = d \<longleftrightarrow> (of_char c :: nat) = of_char d"
  by simp

lemma py_lower_char_space: "py_lower_char c = CHR '' '' \<longleftrightarrow> c = CHR '' ''"
  by (auto simp: py_lower_char_def Let_def char_eq_code [of _ "CHR '' ''"] simp del: of_char_eq_iff)

lemma py_lower_char_underscore: "py_lower_char c = CHR ''_'' \<longleftrightarrow> c = CHR ''_''"
  by (auto simp: py_lower_char_def Let_def char_eq_code [of _ "CHR ''_''"] simp del: of_char_eq_iff)

lemma py_isspace_space: "py_isspace CHR '' ''"
  by (simp add: py_isspace_def)

lemma py_isspace_underscore: "\<not> py_isspace CHR ''_''"
  by (simp add: py_isspace_def)

lemma py_lower_idem: "py_lower (py_lower s) = py_lower s"
  by (simp add: py_lower_def py_lower_char_idem)

lemma isspace_comp_lower: "py_isspace \<circ> py_lower_char = py_isspace"
  by (rule ext) (simp add: py_isspace_lower)

lemma py_strip_lower: "py_strip (py_lower s) = py_lower (py_strip s)"
  by (simp add: py_strip_def py_lower_def dropWhile_map rev_map isspace_comp_lower)

lemma py_strip_fixed_iff:
  "py_strip s = s \<longleftrightarrow> s = [] \<or> (\<not> py_isspace (hd s) \<and> \<not> py_isspace (last s))"
proof (cases "s = []")
  case True
  then show ?thesis by (simp add: py_strip_def)
next
  case False
  show ?thesis
  proof
    assume h: "py_strip s = s"
    have a: "\<not> py_isspace (hd s)"
    proof
      assume sp: "py_isspace (hd s)"
      then have "length (dropWhile py_isspace s) < length s"
        using False by (cases s) (auto simp: le_imp_less_Suc length_dropWhile_le)
      moreover have "length (py_strip s) \<le> length (dropWhile py_isspace s)"
        by (simp add: py_strip_def) (metis length_dropWhile_le length_rev)
      ultimately show False using h by simp
    qed
    then have d: "dropWhile py_isspace s = s" using False by (cases s) auto
    have "\<not> py_isspace (last s)"
    proof
      assume sp: "py_isspace (last s)"
      then have "py_isspace (hd (rev s))" using False by (simp add: hd_rev)
      then have "length (dropWhile py_isspace (rev s)) < length (rev s)"
        using False by (cases "rev s") (auto simp: le_imp_less_Suc length_dropWhile_le)
      then have "length (py_strip s) < length s"
        by (simp add: py_strip_def d)
      then show False using h by simp
    qed
    with a False show "s = [] \<or> (\<not> py_isspace (hd s) \<and> \<not> py_isspace (last s))" by simp
  next
    assume "s = [] \<or> (\<not> py_isspace (hd s) \<and> \<not> py_isspace (last s))"
    with False have a: "\<not> py_isspace (hd s)" and b: "\<not> py_isspace (last s)" by auto
    from a False have d: "dropWhile py_isspace s = s" by (cases s) auto
    from b False have "\<not> py_isspace (hd (rev s))" by (simp add: hd_rev)
    with False have "dropWhile py_isspace (rev s) = rev s" by (cases "rev s") auto
    then show "py_strip s = s" by (simp add: py_strip_def d)
  qed
qed

lemma py_strip_idem: "py_strip (py_strip s) = py_strip s"
proof -
  let ?t = "py_strip s"
  have "?t = [] \<or> (\<not> py_isspace (hd ?t) \<and> \<not> py_isspace (last ?t))"
  proof (cases "?t = []")
    case False
    let ?u = "dropWhile py_isspace s"
    let ?v = "dropWhile py_isspace (rev ?u)"
    have t: "?t = rev ?v" by (simp add: py_strip_def)
    with False have v: "?v \<noteq> []" by simp
    then have "\<not> py_isspace (hd ?v)" by (rule hd_dropWhile)
    then have l: "\<not> py_isspace (last ?t)" using v by (simp add: t last_rev)
    have u: "?u \<noteq> []"
    proof
      assume "?u = []"
      with v show False by simp
    qed
    then have hu: "\<not> py_isspace (hd ?u)" by (rule hd_dropWhile)
    have "\<exists>ws. rev ?u = ws @ ?v" by (metis takeWhile_dropWhile_id)
    then obtain ws where "rev ?u = ws @ ?v" ..
    then have "?u = rev ?v @ rev ws" by (metis rev_append rev_rev_ident)
    then have "hd ?u = hd (rev ?v)" using v by (metis hd_append2 rev_is_Nil_conv)
    with hu have "\<not> py_isspace (hd ?t)" by (simp add: t)
    with l show ?thesis by simp
  qed simp
  then show ?thesis by (simp add: py_strip_fixed_iff)
qed

lemma py_strip_pad:
  assumes "\<forall>c \<in> set l. py_isspace c" "\<forall>c \<in> set r. py_isspace c"
  shows "py_strip (l @ s @ r) = py_strip s"
proof -
  have a: "dropWhile py_isspace (l @ xs) = dropWhile py_isspace xs" for xs
    using assms(1) by simp
  have b: "dropWhile py_isspace (rev r @ xs) = dropWhile py_isspace xs" for xs
    by (rule dropWhile_append2) (use assms(2) in simp)
  show ?thesis
  proof (cases "\<forall>c \<in> set s. py_isspace c")
    case True
    then have "\<forall>c \<in> set (s @ r). py_isspace c"
      using assms(2) by auto
    then have "dropWhile py_isspace (s @ r) = []"
      unfolding dropWhile_eq_Nil_conv .
    moreover from True have "dropWhile py_isspace s = []"
      unfolding dropWhile_eq_Nil_conv .
    ultimately show ?thesis by (simp only: py_strip_def a)
  next
    case False
    then obtain x where "x \<in> set s" "\<not> py_isspace x" by blast
    then have "dropWhile py_isspace (s @ r) = dropWhile py_isspace s @ r"
      by (rule dropWhile_append1)
    then show ?thesis by (simp add: py_strip_def a b)
  qed
qed

section \<open>Properties of the loop\<close>

lemma set_add_set: "set (set_add x xs) = insert x (set xs)"
  by (auto simp: set_add_def)

lemma set_add_distinct: "distinct xs \<Longrightarrow> distinct (set_add x xs)"
  by (simp add: set_add_def)

lemma iterrows_loop_image:
  "set (iterrows_loop cols us rs matched) =
     set matched \<union>
     (\<lambda>r. r ''condition'') ` set (filter (\<lambda>r. row_symptoms cols r \<inter> Str ` set us \<noteq> {}) rs)"
  by (induction rs arbitrary: matched) (simp_all add: set_add_set)

lemma iterrows_loop_set:
  "set (iterrows_loop cols us rs matched) =
     set matched \<union> {r ''condition'' | r. r \<in> set rs \<and> row_symptoms cols r \<inter> Str ` set us \<noteq> {}}"
  unfolding iterrows_loop_image by auto

lemma iterrows_loop_distinct:
  "distinct matched \<Longrightarrow> distinct (iterrows_loop cols us rs matched)"
  by (induction rs arbitrary: matched) (simp_all add: set_add_distinct)

lemma iterrows_loop_cong:
  "set us = set us' \<Longrightarrow> iterrows_loop cols us rs matched = iterrows_loop cols us' rs matched"
  by (induction rs arbitrary: matched) simp_all

lemma iterrows_loop_no_selection:
  "iterrows_loop cols [] rs matched = matched"
  by (induction rs arbitrary: matched) simp_all

section \<open>What is retrieved\<close>

text \<open>
  C7. Two selections that are permutations of each other retrieve the same set of
  conditions.
\<close>

theorem retrieve_conditions_permutation:
  "mset selected = mset selected' \<Longrightarrow>
     set (retrieve_conditions st selected) = set (retrieve_conditions st selected')"
proof -
  assume "mset selected = mset selected'"
  then have "set selected = set selected'" by (rule mset_eq_setD)
  then have "set (map query_token selected) = set (map query_token selected')" by simp
  then show ?thesis
    by (simp only: retrieve_conditions_def iterrows_loop_cong [of "map query_token selected" "map query_token selected'"])
qed

theorem retrieve_conditions_permutation_witness:
  "mset [''fever'', ''cough''] = mset [''cough'', ''fever''] \<and>
   set (retrieve_conditions flu_cold_state [''fever'', ''cough'']) =
   set (retrieve_conditions flu_cold_state [''cough'', ''fever''])"
proof -
  have h: "mset [''fever'', ''cough''] = mset [''cough'', ''fever'']" by simp
  from h retrieve_conditions_permutation [OF h] show ?thesis by (intro conjI)
qed

text \<open>
  C8. With an empty selection \<open>retrieve_conditions\<close> returns the empty list, whatever
  the loaded table is.
\<close>

theorem retrieve_empty_selection:
  "retrieve_conditions st [] = []"
  by (simp add: retrieve_conditions_def iterrows_loop_no_selection)

theorem retrieve_empty_selection_witness:
  "retrieve_conditions flu_cold_state [] = []"
  by (rule retrieve_empty_selection)

section \<open>Case and spacing of the selection\<close>

lemma query_token_lower: "py_lower a = py_lower b \<Longrightarrow> query_token a = query_token b"
  by (simp add: query_token_def)

lemma query_token_pad:
  "\<forall>c \<in> set l. py_isspace c \<Longrightarrow> \<forall>c \<in> set r. py_isspace c \<Longrightarrow> query_token (l @ a @ r) = query_token a"
proof -
  assume l: "\<forall>c \<in> set l. py_isspace c" and r: "\<forall>c \<in> set r. py_isspace c"
  have "py_strip (py_lower (l @ a @ r)) = py_lower (py_strip (l @ a @ r))"
    by (rule py_strip_lower)
  also have "\<dots> = py_lower (py_strip a)" using l r by (simp add: py_strip_pad)
  also have "\<dots> = py_strip (py_lower a)" by (rule py_strip_lower [symmetric])
  finally show ?thesis by (simp add: query_token_def)
qed

lemma py_lower_replace:
  "py_lower (py_replace CHR '' '' CHR ''_'' s) = py_replace CHR '' '' CHR ''_'' (py_lower s)"
proof -
  have "py_lower_char CHR ''_'' = CHR ''_''" by (simp add: py_lower_char_underscore)
  then show ?thesis
    by (induction s) (simp_all add: py_lower_def py_replace_def py_lower_char_space)
qed

lemma py_lower_replace_back:
  "py_lower (py_replace CHR ''_'' CHR '' '' s) = py_replace CHR ''_'' CHR '' '' (py_lower s)"
proof -
  have "py_lower_char CHR '' '' = CHR '' ''" by (simp add: py_lower_char_space)
  then show ?thesis
    by (induction s) (simp_all add: py_lower_def py_replace_def py_lower_char_underscore)
qed

lemma py_strip_replace:
  "py_strip s = s \<Longrightarrow> py_strip (py_replace CHR '' '' CHR ''_'' s) = py_replace CHR '' '' CHR ''_'' s"
proof -
  assume h: "py_strip s = s"
  show ?thesis
  proof (cases "s = []")
    case True
    then show ?thesis by (simp add: py_replace_def py_strip_def)
  next
    case False
    with h have a: "\<not> py_isspace (hd s)" and b: "\<not> py_isspace (last s)"
      by (simp_all add: py_strip_fixed_iff)
    let ?f = "\<lambda>c. if c = CHR '' '' then CHR ''_'' else c"
    have hd: "hd (map ?f s) = ?f (hd s)" using False by (simp add: hd_map)
    have la: "last (map ?f s) = ?f (last s)" using False by (simp add: last_map)
    have "\<not> py_isspace (?f (hd s))" using a by (simp add: py_isspace_underscore)
    moreover have "\<not> py_isspace (?f (last s))" using b by (simp add: py_isspace_underscore)
    ultimately show ?thesis
      unfolding py_strip_fixed_iff py_replace_def hd la by simp
  qed
qed

lemma py_replace_idem: "py_replace a b (py_replace a b s) = py_replace a b s"
  by (induction s) (simp_all add: py_replace_def)

lemma query_token_underscored:
  "py_strip a = a \<Longrightarrow> query_token (py_replace CHR '' '' CHR ''_'' a) = query_token a"
proof -
  assume h: "py_strip a = a"
  then have s: "py_strip (py_lower a) = py_lower a" by (simp add: py_strip_lower)
  then have "py_strip (py_replace CHR '' '' CHR ''_'' (py_lower a)) = py_replace CHR '' '' CHR ''_'' (py_lower a)"
    by (rule py_strip_replace)
  then show ?thesis
    by (simp add: query_token_def py_lower_replace py_replace_idem s)
qed

lemma retrieve_conditions_cong:
  "set (map query_token sel) = set (map query_token sel') \<Longrightarrow>
     retrieve_conditions st sel = retrieve_conditions st sel'"
  unfolding retrieve_conditions_def by (rule iterrows_loop_cong)

text \<open>
  C6. The query token of \<open>Chest Pain\<close>, of \<open>chest_pain\<close> and of \<open>chest pain\<close> between
  spaces is \<open>chest_pain\<close>. Replacing an element of a selection by a string with the
  same query token leaves the retrieved set unchanged; and a string keeps its query
  token when letters change case, when white space is put around it, and, for a string
  without white space at its ends, when its spaces are written as underscores.
\<close>

theorem retrieve_conditions_variants:
  "query_token ''Chest Pain'' = ''chest_pain''
   \<and> query_token ''chest_pain'' = ''chest_pain''
   \<and> query_token '' chest pain '' = ''chest_pain''
   \<and> (query_token a = query_token b \<longrightarrow>
        set (retrieve_conditions st (xs @ a # ys)) = set (retrieve_conditions st (xs @ b # ys)))
   \<and> (py_lower a = py_lower b \<longrightarrow> query_token a = query_token b)
   \<and> ((\<forall>c \<in> set l. py_isspace c) \<and> (\<forall>c \<in> set r. py_isspace c) \<longrightarrow>
        query_token (l @ a @ r) = query_token a)
   \<and> (py_strip a = a \<longrightarrow> query_token (py_replace CHR '' '' CHR ''_'' a) = query_token a)"
proof -
  have t1: "query_token ''Chest Pain'' = ''chest_pain''" by code_simp
  have t2: "query_token ''chest_pain'' = ''chest_pain''" by code_simp
  have t3: "query_token '' chest pain '' = ''chest_pain''" by code_simp
  have g: "query_token a = query_token b \<longrightarrow>
        set (retrieve_conditions st (xs @ a # ys)) = set (retrieve_conditions st (xs @ b # ys))"
  proof
    assume "query_token a = query_token b"
    then have "set (map query_token (xs @ a # ys)) = set (map query_token (xs @ b # ys))" by simp
    then have "retrieve_conditions st (xs @ a # ys) = retrieve_conditions st (xs @ b # ys)"
      by (rule retrieve_conditions_cong)
    then show "set (retrieve_conditions st (xs @ a # ys)) = set (retrieve_conditions st (xs @ b # ys))"
      by simp
  qed
  have v1: "py_lower a = py_lower b \<longrightarrow> query_token a = query_token b"
    by (rule impI) (rule query_token_lower)
  have v2: "(\<forall>c \<in> set l. py_isspace c) \<and> (\<forall>c \<in> set r. py_isspace c) \<longrightarrow>
        query_token (l @ a @ r) = query_token a"
    by (rule impI, erule conjE) (rule query_token_pad)
  have v3: "py_strip a = a \<longrightarrow> query_token (py_replace CHR '' '' CHR ''_'' a) = query_token a"
    by (rule impI) (rule query_token_underscored)
  from t1 t2 t3 g v1 v2 v3 show ?thesis by (intro conjI)
qed

theorem retrieve_conditions_variants_witness:
  "query_token ''Chest Pain'' = query_token '' chest pain ''
   \<and> set (retrieve_conditions flu_cold_state [''fever'', ''Chest Pain'']) =
       set (retrieve_conditions flu_cold_state [''fever'', '' chest pain ''])"
proof -
  have q: "query_token ''Chest Pain'' = query_token '' chest pain ''" by code_simp
  with retrieve_conditions_variants [of "''Chest Pain''" "'' chest pain ''" flu_cold_state "[''fever'']" "[]" "[]" "[]"]
  show ?thesis by simp
qed

section \<open>Loading\<close>

lemma py_replace_fixed_iff: "a \<noteq> b \<Longrightarrow> py_replace a b s = s \<longleftrightarrow> a \<notin> set s"
  by (induction s) (auto simp: py_replace_def)

lemma py_replace_target:
  "py_replace a b s = t \<Longrightarrow> b \<notin> set t \<Longrightarrow> s = t"
  by (induction s arbitrary: t) (auto simp: py_replace_def split: if_splits)

lemma py_replace_inverse:
  "b \<notin> set s \<Longrightarrow> py_replace b a (py_replace a b s) = s"
  by (induction s) (auto simp: py_replace_def)

lemma symptom_cell_idem: "symptom_cell (symptom_cell v) = symptom_cell v"
  by (simp add: symptom_cell_def py_strip_lower py_lower_idem py_strip_idem)

lemma symptom_cell_funpow: "0 < n \<Longrightarrow> (symptom_cell ^^ n) v = symptom_cell v"
proof (induction n)
  case 0
  then show ?case by simp
next
  case (Suc n)
  show ?case
  proof (cases "n = 0")
    case True
    then show ?thesis by simp
  next
    case False
    with Suc.IH have "(symptom_cell ^^ n) v = symptom_cell v" by simp
    then show ?thesis by (simp add: symptom_cell_idem)
  qed
qed

lemma rows_fold_assign:
  "rows (fold (\<lambda>col. assign_column col f) cols d) =
     map (\<lambda>r c. (f ^^ count_list cols c) (r c)) (rows d)"
proof (induction cols arbitrary: d)
  case Nil
  then show ?case by simp
next
  case (Cons x xs)
  have step: "(\<lambda>c. (f ^^ count_list xs c) ((r(x := f (r x))) c)) =
      (\<lambda>c. (f ^^ count_list (x # xs) c) (r c))" for r :: row
    by (rule ext) (simp add: funpow_swap1)
  have "rows (fold (\<lambda>col. assign_column col f) (x # xs) d) =
      rows (fold (\<lambda>col. assign_column col f) xs (assign_column x f d))"
    by simp
  also have "\<dots> = map (\<lambda>r c. (f ^^ count_list xs c) (r c)) (rows (assign_column x f d))"
    by (rule Cons.IH)
  also have "\<dots> = map (\<lambda>r c. (f ^^ count_list xs c) ((r(x := f (r x))) c)) (rows d)"
    by (simp add: assign_column_def comp_def)
  also have "\<dots> = map (\<lambda>r c. (f ^^ count_list (x # xs) c) (r c)) (rows d)"
    by (simp only: step)
  finally show ?case .
qed

lemma columns_fold_assign:
  "columns (fold (\<lambda>col. assign_column col f) cols d) = columns d"
  by (induction cols arbitrary: d) (simp_all add: assign_column_def)

lemma condition_not_symptom_col: "\<not> is_symptom_col ''condition''"
  by code_simp

lemma load_dataset_Inr:
  assumes "fs ''dataset.csv'' = Some (Table d)" "''condition'' \<in> set (columns d)"
    "filter is_symptom_col (columns d) \<noteq> []" "str_accessor_ok (column_values d ''condition'')"
  shows "load_dataset fs =
     Inr \<lparr>df = d\<lparr>rows := map (\<lambda>r0 c. if is_symptom_col c \<and> c \<in> set (columns d) then symptom_cell (r0 c)
                                    else if c = ''condition'' then str_strip (r0 c) else r0 c) (rows d)\<rparr>,
          symptom_cols = filter is_symptom_col (columns d)\<rparr>"
proof -
  let ?cols = "filter is_symptom_col (columns d)"
  let ?d1 = "assign_column ''condition'' str_strip d"
  let ?d2 = "fold (\<lambda>col. assign_column col symptom_cell) ?cols ?d1"
  have l: "load_dataset fs = Inr \<lparr>df = ?d2, symptom_cols = ?cols\<rparr>"
    using assms by (simp add: load_dataset_def Let_def)
  have c: "columns ?d2 = columns d"
    by (simp add: columns_fold_assign assign_column_def)
  have cnt: "(symptom_cell ^^ count_list ?cols c) v =
      (if is_symptom_col c \<and> c \<in> set (columns d) then symptom_cell v else v)" for c v
  proof (cases "c \<in> set ?cols")
    case True
    then have "count_list ?cols c \<noteq> 0" by (simp only: count_list_0_iff not_not)
    then have "0 < count_list ?cols c" by simp
    with True show ?thesis by (simp add: symptom_cell_funpow)
  next
    case False
    then have "count_list ?cols c = 0" by (simp only: count_list_0_iff simp_thms)
    with False show ?thesis by auto
  qed
  have r: "rows ?d2 = map (\<lambda>r0 c. if is_symptom_col c \<and> c \<in> set (columns d) then symptom_cell (r0 c)
                                    else if c = ''condition'' then str_strip (r0 c) else r0 c) (rows d)"
    unfolding rows_fold_assign cnt
    by (auto simp: assign_column_def condition_not_symptom_col intro!: ext)
  have "?d2 = d\<lparr>rows := rows ?d2\<rparr>"
    using c by (cases ?d2, cases d) simp
  with l r show ?thesis by simp
qed

text \<open>
  C2. The two sides do not give the same token for every string: line 39 lowers and
  strips a cell, line 43 lowers, strips and then writes spaces as underscores. On
  \<open>chest pain\<close> the table keeps \<open>chest pain\<close> and the query asks for \<open>chest_pain\<close>.
\<close>

theorem dataset_token_mismatch:
  "symptom_cell (Str ''chest pain'') = Str ''chest pain''
   \<and> query_token ''chest pain'' = ''chest_pain''
   \<and> symptom_cell (Str ''chest pain'') \<noteq> Str (query_token ''chest pain'')"
  by code_simp

text \<open>
  C2, as amended. For every string the query token is the token of the table side
  with its spaces written as underscores, and the two are the same token exactly when
  the lowered and stripped string has no space in it.
\<close>

theorem query_token_of_dataset_token:
  "query_token s = py_replace CHR '' '' CHR ''_'' (astype_str (symptom_cell (Str s)))
   \<and> (symptom_cell (Str s) = Str (query_token s) \<longleftrightarrow> CHR '' '' \<notin> set (py_strip (py_lower s)))"
proof -
  have "py_replace CHR '' '' CHR ''_'' (py_strip (py_lower s)) = py_strip (py_lower s)
      \<longleftrightarrow> CHR '' '' \<notin> set (py_strip (py_lower s))"
    by (rule py_replace_fixed_iff) simp
  then show ?thesis
    by (auto simp: query_token_def symptom_cell_def)
qed

theorem query_token_of_dataset_token_witness:
  "symptom_cell (Str '' Chest_Pain'') = Str (query_token '' Chest_Pain'')
   \<and> query_token '' Chest_Pain'' = ''chest_pain''"
proof -
  have "CHR '' '' \<notin> set (py_strip (py_lower '' Chest_Pain''))" by code_simp
  moreover have "query_token '' Chest_Pain'' = ''chest_pain''" by code_simp
  ultimately show ?thesis
    using query_token_of_dataset_token [of "'' Chest_Pain''"] by simp
qed

section \<open>Selecting an option of the multiselect\<close>

lemma load_dataset_InrD:
  assumes "load_dataset fs = Inr st"
  shows "\<exists>d. fs ''dataset.csv'' = Some (Table d) \<and> ''condition'' \<in> set (columns d)
     \<and> filter is_symptom_col (columns d) \<noteq> [] \<and> str_accessor_ok (column_values d ''condition'')"
proof (cases "fs ''dataset.csv''")
  case None
  with assms show ?thesis by (simp add: load_dataset_def)
next
  case (Some f)
  with assms show ?thesis
    by (cases f) (simp_all add: load_dataset_def Let_def split: if_splits)
qed

lemma row_symptoms_iff:
  "v \<in> row_symptoms cols r \<longleftrightarrow> (\<exists>c \<in> set cols. r c = v) \<and> truthy v \<and> v \<noteq> Str ''nan''"
  by (auto simp: row_symptoms_def)

lemma loaded_token:
  assumes "load_dataset fs = Inr st" "r \<in> set (rows (df st))"
    "Str t \<in> row_symptoms (symptom_cols st) r"
  shows "py_lower t = t \<and> py_strip t = t \<and> t \<noteq> []"
proof -
  from assms(1) obtain d where d: "fs ''dataset.csv'' = Some (Table d)" "''condition'' \<in> set (columns d)"
    "filter is_symptom_col (columns d) \<noteq> []" "str_accessor_ok (column_values d ''condition'')"
    using load_dataset_InrD by blast
  from load_dataset_Inr [of fs d, OF d] assms(1)
  have st: "st = \<lparr>df = d\<lparr>rows := map (\<lambda>r0 c. if is_symptom_col c \<and> c \<in> set (columns d) then symptom_cell (r0 c)
                                    else if c = ''condition'' then str_strip (r0 c) else r0 c) (rows d)\<rparr>,
          symptom_cols = filter is_symptom_col (columns d)\<rparr>"
    by simp
  from assms(3) obtain c where c: "c \<in> set (symptom_cols st)" "r c = Str t" and ne: "t \<noteq> []"
    by (auto simp: row_symptoms_iff)
  from c(1) have cc: "is_symptom_col c \<and> c \<in> set (columns d)" by (simp add: st)
  from assms(2) obtain r0 where "r = (\<lambda>c. if is_symptom_col c \<and> c \<in> set (columns d) then symptom_cell (r0 c)
                                    else if c = ''condition'' then str_strip (r0 c) else r0 c)"
    by (auto simp: st)
  with cc c(2) have "Str t = symptom_cell (r0 c)" by simp
  then have t: "t = py_strip (py_lower (astype_str (r0 c)))" by (simp add: symptom_cell_def)
  have "py_lower t = t" unfolding t by (simp add: py_strip_lower py_lower_idem)
  moreover have "py_strip t = t" unfolding t by (simp add: py_strip_idem)
  ultimately show ?thesis using ne by simp
qed

lemma query_token_roundtrip:
  assumes "py_lower t = t" "py_strip t = t" "t \<noteq> []"
    "CHR '' '' \<notin> set t" "hd t \<noteq> CHR ''_''" "last t \<noteq> CHR ''_''"
  shows "query_token (py_replace CHR ''_'' CHR '' '' t) = t"
proof -
  let ?u = "py_replace CHR ''_'' CHR '' '' t"
  let ?f = "\<lambda>c. if c = CHR ''_'' then CHR '' '' else c"
  have u: "?u = map ?f t" by (simp add: py_replace_def)
  have lo: "py_lower ?u = ?u" by (simp add: py_lower_replace_back assms(1))
  from assms(2,3) have a: "\<not> py_isspace (hd t)" and b: "\<not> py_isspace (last t)"
    by (simp_all add: py_strip_fixed_iff)
  have "hd ?u = hd t" using assms(3,5) by (simp add: u hd_map)
  moreover have "last ?u = last t" using assms(3,6) by (simp add: u last_map)
  ultimately have "py_strip ?u = ?u" using a b by (simp add: py_strip_fixed_iff)
  moreover have "py_replace CHR '' '' CHR ''_'' ?u = t"
    using assms(4) by (rule py_replace_inverse)
  ultimately show ?thesis by (simp add: query_token_def lo)
qed

lemma retrieve_conditions_member:
  "r \<in> set (rows (df st)) \<Longrightarrow> Str (query_token s) \<in> row_symptoms (symptom_cols st) r \<Longrightarrow>
     r ''condition'' \<in> set (retrieve_conditions st [s])"
  unfolding retrieve_conditions_def iterrows_loop_set by auto

section \<open>Missing and empty symptom cells\<close>

lemma options_origin:
  "x \<in> set (sort (remdups (concat (map (\<lambda>col. map f (filter (\<lambda>s. s \<noteq> n) (g col))) cols)))) \<Longrightarrow>
     \<exists>s. s \<noteq> n \<and> x = f s"
  by auto

lemma all_symptoms_not_nan: "''nan'' \<notin> set (all_symptoms st)"
proof
  assume "''nan'' \<in> set (all_symptoms st)"
  then have "\<exists>s. s \<noteq> ''nan'' \<and> ''nan'' = py_replace CHR ''_'' CHR '' '' s"
    unfolding all_symptoms_def by (rule options_origin)
  then obtain s where s: "s \<noteq> ''nan''" "py_replace CHR ''_'' CHR '' '' s = ''nan''"
    by metis
  have "CHR '' '' \<notin> set ''nan''" by simp
  with s(2) have "s = ''nan''" by (rule py_replace_target)
  with s(1) show False ..
qed

lemma retrieve_conditions_justified:
  assumes "x \<in> set (retrieve_conditions st sel)"
  shows "\<exists>r \<in> set (rows (df st)). \<exists>c \<in> set (symptom_cols st).
           r ''condition'' = x \<and> r c \<in> Str ` set (map query_token sel)
           \<and> r c \<noteq> Str ''nan'' \<and> r c \<noteq> Str ''''"
proof -
  from assms obtain r v where r: "r \<in> set (rows (df st))" "r ''condition'' = x"
    and v: "v \<in> row_symptoms (symptom_cols st) r" "v \<in> Str ` set (map query_token sel)"
    unfolding retrieve_conditions_def iterrows_loop_set by auto
  from v(1) obtain c where c: "c \<in> set (symptom_cols st)" "r c = v" "truthy v" "v \<noteq> Str ''nan''"
    by (auto simp: row_symptoms_iff)
  from c(3) have "v \<noteq> Str ''''" by auto
  with r c v(2) show ?thesis by blast
qed

text \<open>
  C10. The symptom set of a row never holds the text \<open>nan\<close> or the empty text. Every
  retrieved condition comes from a row with a symptom cell that equals a query token
  and is neither of the two, so a table whose symptom cells are all \<open>nan\<close> or empty
  retrieves nothing, whatever is selected. And \<open>nan\<close> is not among the options of the
  multiselect.
\<close>

theorem nan_never_matches:
  "Str ''nan'' \<notin> row_symptoms cols r \<and> Str '''' \<notin> row_symptoms cols r
   \<and> (\<forall>x \<in> set (retrieve_conditions st sel).
         \<exists>r \<in> set (rows (df st)). \<exists>c \<in> set (symptom_cols st).
           r ''condition'' = x \<and> r c \<in> Str ` set (map query_token sel)
           \<and> r c \<noteq> Str ''nan'' \<and> r c \<noteq> Str '''')
   \<and> ((\<forall>r \<in> set (rows (df st)). \<forall>c \<in> set (symptom_cols st). r c = Str ''nan'' \<or> r c = Str '''')
        \<longrightarrow> retrieve_conditions st sel = [])
   \<and> ''nan'' \<notin> set (all_symptoms st)"
proof -
  have a1: "Str ''nan'' \<notin> row_symptoms cols r"
    by (simp add: row_symptoms_iff)
  have a2: "Str '''' \<notin> row_symptoms cols r"
    by (simp add: row_symptoms_iff)
  have b: "\<forall>x \<in> set (retrieve_conditions st sel).
         \<exists>r \<in> set (rows (df st)). \<exists>c \<in> set (symptom_cols st).
           r ''condition'' = x \<and> r c \<in> Str ` set (map query_token sel)
           \<and> r c \<noteq> Str ''nan'' \<and> r c \<noteq> Str ''''"
    by (rule ballI) (rule retrieve_conditions_justified)
  have c: "(\<forall>r \<in> set (rows (df st)). \<forall>c \<in> set (symptom_cols st). r c = Str ''nan'' \<or> r c = Str '''')
        \<longrightarrow> retrieve_conditions st sel = []"
  proof
    assume h: "\<forall>r \<in> set (rows (df st)). \<forall>c \<in> set (symptom_cols st). r c = Str ''nan'' \<or> r c = Str ''''"
    show "retrieve_conditions st sel = []"
    proof (cases "retrieve_conditions st sel")
      case Nil
      then show ?thesis .
    next
      case (Cons x xs)
      then have "x \<in> set (retrieve_conditions st sel)" by simp
      then obtain r c where "r \<in> set (rows (df st))" "c \<in> set (symptom_cols st)"
        "r c \<noteq> Str ''nan''" "r c \<noteq> Str ''''"
        using retrieve_conditions_justified by blast
      with h show ?thesis by blast
    qed
  qed
  from a1 a2 b c all_symptoms_not_nan show ?thesis by (intro conjI)
qed

theorem nan_never_matches_witness:
  "retrieve_conditions
     \<lparr>df = \<lparr>columns = [''condition'', ''Symptom_1''],
            rows = [(\<lambda>_. Str ''nan'')(''condition'' := Str ''Flu'')]\<rparr>,
      symptom_cols = [''Symptom_1'']\<rparr> [''nan''] = []
   \<and> Str ''nan'' \<notin> row_symptoms [''Symptom_1''] ((\<lambda>_. Str ''nan'')(''condition'' := Str ''Flu''))"
proof -
  let ?r = "(\<lambda>_. Str ''nan'')(''condition'' := Str ''Flu'')"
  let ?st = "\<lparr>df = \<lparr>columns = [''condition'', ''Symptom_1''], rows = [?r]\<rparr>,
      symptom_cols = [''Symptom_1'']\<rparr>"
  have h: "\<forall>r \<in> set (rows (df ?st)). \<forall>c \<in> set (symptom_cols ?st). r c = Str ''nan'' \<or> r c = Str ''''"
    by simp
  from nan_never_matches [of "[''Symptom_1'']" ?r ?st "[''nan'']"] h
  show ?thesis by blast
qed

section \<open>The retrieved set\<close>

lemma row_matches_iff:
  "row_symptoms cols r \<inter> Str ` set (map query_token selected) \<noteq> {} \<longleftrightarrow>
     (\<exists>c \<in> set cols. \<exists>s \<in> set selected.
         r c = Str (py_replace CHR '' '' CHR ''_'' (py_strip (py_lower s)))
         \<and> r c \<noteq> Str '''' \<and> r c \<noteq> Str ''nan'')"
proof
  assume "row_symptoms cols r \<inter> Str ` set (map query_token selected) \<noteq> {}"
  then obtain v where v: "v \<in> row_symptoms cols r" "v \<in> Str ` set (map query_token selected)"
    by blast
  from v(2) obtain s where s: "s \<in> set selected" "v = Str (query_token s)" by auto
  from v(1) obtain c where c: "c \<in> set cols" "r c = v" "truthy v" "v \<noteq> Str ''nan''"
    by (auto simp: row_symptoms_iff)
  from c(3) have "v \<noteq> Str ''''" by auto
  with s c show "\<exists>c \<in> set cols. \<exists>s \<in> set selected.
         r c = Str (py_replace CHR '' '' CHR ''_'' (py_strip (py_lower s)))
         \<and> r c \<noteq> Str '''' \<and> r c \<noteq> Str ''nan''"
    unfolding query_token_def by (intro bexI [of _ c] bexI [of _ s]) simp_all
next
  assume "\<exists>c \<in> set cols. \<exists>s \<in> set selected.
         r c = Str (py_replace CHR '' '' CHR ''_'' (py_strip (py_lower s)))
         \<and> r c \<noteq> Str '''' \<and> r c \<noteq> Str ''nan''"
  then obtain c s where c: "c \<in> set cols" and s: "s \<in> set selected"
    and v: "r c = Str (query_token s)" "r c \<noteq> Str ''''" "r c \<noteq> Str ''nan''"
    unfolding query_token_def by blast
  from v(1,2) have "truthy (r c)" by auto
  with c v(3) have "r c \<in> row_symptoms cols r" unfolding row_symptoms_iff by blast
  moreover from s v(1) have "r c \<in> Str ` set (map query_token selected)" by simp
  ultimately show "row_symptoms cols r \<inter> Str ` set (map query_token selected) \<noteq> {}" by blast
qed

lemma retrieve_conditions_set:
  "set (retrieve_conditions st selected) =
     {r ''condition'' | r. r \<in> set (rows (df st)) \<and>
        (\<exists>c \<in> set (symptom_cols st). \<exists>s \<in> set selected.
            r c = Str (py_replace CHR '' '' CHR ''_'' (py_strip (py_lower s)))
            \<and> r c \<noteq> Str '''' \<and> r c \<noteq> Str ''nan'')}"
  unfolding retrieve_conditions_def iterrows_loop_set row_matches_iff by simp

text \<open>
  C1. A symptom token that is not empty can still be left out of the set of its row:
  the cell spelled \<open>NAN\<close> stays text in the file, is loaded as \<open>nan\<close>, and line 49 drops
  it. The selection \<open>nan\<close> has the token \<open>nan\<close>, which is the token of that row, and
  nothing is retrieved.
\<close>

theorem retrieve_nan_spelled:
  "case load_dataset [''dataset.csv'' \<mapsto> Table nan_spelled_table] of
     Inl e \<Rightarrow> False
   | Inr st \<Rightarrow>
       map (\<lambda>r. r ''Symptom_1'') (rows (df st)) = [Str ''nan'']
       \<and> py_replace CHR '' '' CHR ''_'' (py_strip (py_lower ''nan'')) = ''nan''
       \<and> retrieve_conditions st [''nan''] = []"
  by code_simp

text \<open>
  C1, as amended. The result of \<open>retrieve_conditions\<close> is, as a set, the conditions of
  the rows that have, in a symptom column, a cell equal to the token of a selected
  symptom (lowered, stripped, spaces written as underscores) which is neither empty
  nor the text \<open>nan\<close>; and it has no duplicates. On the table (Flu: fever, cough),
  (Cold: cough, sneezing), once loaded, \<open>cough\<close> gives Flu and Cold, \<open>fever\<close> gives
  Flu, \<open>headache\<close> gives nothing. On the table loaded as (Angina: chest_pain, nan),
  (Cold: sore_throat, empty), a selection in capitals and between spaces finds its
  row, a text of a column that is no symptom column finds none, and \<open>nan\<close>, a space
  and the empty text find none.
\<close>

theorem retrieve_conditions_spec:
  "set (retrieve_conditions st selected) =
     {r ''condition'' | r. r \<in> set (rows (df st)) \<and>
        (\<exists>c \<in> set (symptom_cols st). \<exists>s \<in> set selected.
            r c = Str (py_replace CHR '' '' CHR ''_'' (py_strip (py_lower s)))
            \<and> r c \<noteq> Str '''' \<and> r c \<noteq> Str ''nan'')}
   \<and> distinct (retrieve_conditions st selected)
   \<and> (case load_dataset [''dataset.csv'' \<mapsto> Table flu_cold_table] of
        Inl e \<Rightarrow> False
      | Inr loaded \<Rightarrow>
          set (retrieve_conditions loaded [''cough'']) = {Str ''Flu'', Str ''Cold''}
        \<and> set (retrieve_conditions loaded [''fever'']) = {Str ''Flu''}
        \<and> set (retrieve_conditions loaded [''headache'']) = {})
   \<and> (case load_dataset [''dataset.csv'' \<mapsto> Table angina_cold_table] of
        Inl e \<Rightarrow> False
      | Inr loaded \<Rightarrow>
          set (retrieve_conditions loaded [''  CHEST pain '']) = {Str ''Angina''}
        \<and> set (retrieve_conditions loaded [''sore throat'']) = {Str ''Cold''}
        \<and> set (retrieve_conditions loaded [''Sore_Throat'', ''chest pain'', ''sore throat'']) =
            {Str ''Angina'', Str ''Cold''}
        \<and> set (retrieve_conditions loaded [''nan'', '' '', '''', ''chest'', ''3'']) = {})"
proof -
  have b: "distinct (retrieve_conditions st selected)"
    by (simp add: retrieve_conditions_def iterrows_loop_distinct)
  have c: "(case load_dataset [''dataset.csv'' \<mapsto> Table flu_cold_table] of
        Inl e \<Rightarrow> False
      | Inr loaded \<Rightarrow>
          set (retrieve_conditions loaded [''cough'']) = {Str ''Flu'', Str ''Cold''}
        \<and> set (retrieve_conditions loaded [''fever'']) = {Str ''Flu''}
        \<and> set (retrieve_conditions loaded [''headache'']) = {})"
    by code_simp
  have d: "(case load_dataset [''dataset.csv'' \<mapsto> Table angina_cold_table] of
        Inl e \<Rightarrow> False
      | Inr loaded \<Rightarrow>
          set (retrieve_conditions loaded [''  CHEST pain '']) = {Str ''Angina''}
        \<and> set (retrieve_conditions loaded [''sore throat'']) = {Str ''Cold''}
        \<and> set (retrieve_conditions loaded [''Sore_Throat'', ''chest pain'', ''sore throat'']) =
            {Str ''Angina'', Str ''Cold''}
        \<and> set (retrieve_conditions loaded [''nan'', '' '', '''', ''chest'', ''3'']) = {})"
    by code_simp
  from retrieve_conditions_set b c d show ?thesis by (intro conjI)
qed

theorem retrieve_conditions_spec_witness:
  "set (retrieve_conditions flu_cold_state ['' Cough'']) = {Str ''Flu'', Str ''Cold''}
   \<and> distinct (retrieve_conditions flu_cold_state ['' Cough''])"
proof -
  have "set (retrieve_conditions flu_cold_state ['' Cough'']) = {Str ''Flu'', Str ''Cold''}"
    by code_simp
  with retrieve_conditions_spec [of flu_cold_state "['' Cough'']"] show ?thesis by simp
qed

section \<open>What loading gives\<close>

lemma str_accessor_ok_iff:
  "str_accessor_ok vs \<longleftrightarrow> vs = [] \<or> (\<exists>s. Str s \<in> set vs)"
proof -
  have "(\<exists>v \<in> set vs. is_text v) \<longleftrightarrow> (\<exists>s. Str s \<in> set vs)"
  proof
    assume "\<exists>v \<in> set vs. is_text v"
    then obtain v where v: "v \<in> set vs" "is_text v" by blast
    from v(2) obtain s where "v = Str s" by (cases v) simp_all
    with v(1) show "\<exists>s. Str s \<in> set vs" by blast
  next
    assume "\<exists>s. Str s \<in> set vs"
    then obtain s where "Str s \<in> set vs" ..
    moreover have "is_text (Str s)" by simp
    ultimately show "\<exists>v \<in> set vs. is_text v" by blast
  qed
  then show ?thesis by (simp add: str_accessor_ok_def)
qed

text \<open>
  C5. A file that exists and has a \<open>condition\<close> column and a symptom column does not
  always load: when the condition field of every row is empty the column is a column
  of floats and line 37 raises AttributeError, which is neither of the two stops with
  an error message nor a loaded table.
\<close>

theorem blank_condition_load:
  "load_dataset [''dataset.csv'' \<mapsto> Table blank_condition_table] = Inl AttributeError
   \<and> ''condition'' \<in> set (columns blank_condition_table)
   \<and> ''Symptom_1'' \<in> set (columns blank_condition_table)
   \<and> startswith (py_lower ''Symptom_1'') ''symptom''"
proof -
  have s: "is_symptom_col ''Symptom_1''" by code_simp
  have c: "\<not> is_symptom_col ''condition''" by code_simp
  have "load_dataset [''dataset.csv'' \<mapsto> Table blank_condition_table] = Inl AttributeError"
    by (simp add: load_dataset_def blank_condition_table_def Let_def s c
        str_accessor_ok_def column_values_def)
  moreover have "startswith (py_lower ''Symptom_1'') ''symptom''"
    using s by (simp only: is_symptom_col_def)
  ultimately show ?thesis by (simp add: blank_condition_table_def)
qed

text \<open>
  C5, as amended. The script stops at \<open>dataset.csv file not found\<close> exactly when the
  file is missing, and at \<open>Dataset must contain condition and Symptom_* columns\<close>
  exactly when the file parses to a table with no column named \<open>condition\<close> or no
  column whose lowered name starts with \<open>symptom\<close>. It ends in an exception that
  nothing catches exactly when the file is there and cannot be parsed, or the table
  has both kinds of column and its condition column has rows and no text in any of
  them. In every other case loading succeeds: the symptom columns are the columns
  with that prefix and nothing else, and the rows are the rows of the file with the
  conditions stripped and the symptom cells turned into text, lowered and stripped,
  as computed on a table with capitals, spaces, an empty field and a column of notes.
\<close>

theorem load_dataset_outcome:
  "(load_dataset fs = Inl FileNotFound \<longleftrightarrow> fs ''dataset.csv'' = None)
   \<and> (load_dataset fs = Inl MissingColumns \<longleftrightarrow>
        (\<exists>d. fs ''dataset.csv'' = Some (Table d) \<and>
           (''condition'' \<notin> set (columns d) \<or>
            \<not> (\<exists>c \<in> set (columns d). startswith (py_lower c) ''symptom''))))
   \<and> (load_dataset fs = Inl ReadError \<longleftrightarrow> fs ''dataset.csv'' = Some Unreadable)
   \<and> (load_dataset fs = Inl AttributeError \<longleftrightarrow>
        (\<exists>d. fs ''dataset.csv'' = Some (Table d) \<and> ''condition'' \<in> set (columns d)
           \<and> (\<exists>c \<in> set (columns d). startswith (py_lower c) ''symptom'')
           \<and> rows d \<noteq> [] \<and> (\<forall>r \<in> set (rows d). \<forall>s. r ''condition'' \<noteq> Str s)))
   \<and> (fs ''dataset.csv'' = Some (Table d) \<and> ''condition'' \<in> set (columns d)
        \<and> (\<exists>c \<in> set (columns d). startswith (py_lower c) ''symptom'')
        \<and> (rows d = [] \<or> (\<exists>r \<in> set (rows d). \<exists>s. r ''condition'' = Str s)) \<longrightarrow>
        (\<exists>st. load_dataset fs = Inr st
           \<and> symptom_cols st = filter (\<lambda>c. startswith (py_lower c) ''symptom'') (columns d)
           \<and> columns (df st) = columns d
           \<and> rows (df st) =
               map (\<lambda>r0 c. if c \<in> set (symptom_cols st) then symptom_cell (r0 c)
                           else if c = ''condition'' then str_strip (r0 c) else r0 c) (rows d)))
   \<and> (case load_dataset [''dataset.csv'' \<mapsto> Table angina_cold_table] of
        Inl e \<Rightarrow> False
      | Inr st \<Rightarrow>
          symptom_cols st = [''Symptom_1'', ''SYMPTOM_2'']
          \<and> map (\<lambda>r. map r (columns (df st))) (rows (df st)) =
              [[Str ''Angina'', Str ''chest_pain'', Str ''nan'', Str ''Sore_Throat''],
               [Str ''Cold'', Str ''sore_throat'', Str '''', Num ''3'']])"
proof -
  have sym: "is_symptom_col = (\<lambda>c. startswith (py_lower c) ''symptom'')"
    by (rule ext) (simp add: is_symptom_col_def)
  have ne: "filter is_symptom_col cs = [] \<longleftrightarrow> (\<forall>c \<in> set cs. \<not> startswith (py_lower c) ''symptom'')" for cs
    by (simp add: filter_empty_conv sym)
  have ok: "str_accessor_ok (column_values d' ''condition'') \<longleftrightarrow>
      rows d' = [] \<or> (\<exists>r \<in> set (rows d'). \<exists>s. r ''condition'' = Str s)" for d'
  proof -
    have "(\<exists>s. Str s \<in> set (map (\<lambda>r. r ''condition'') (rows d'))) \<longleftrightarrow>
        (\<exists>r \<in> set (rows d'). \<exists>s. r ''condition'' = Str s)"
    proof
      assume "\<exists>s. Str s \<in> set (map (\<lambda>r. r ''condition'') (rows d'))"
      then obtain s r where "r \<in> set (rows d')" "Str s = r ''condition''" by auto
      then have "r \<in> set (rows d')" "r ''condition'' = Str s" by simp_all
      then show "\<exists>r \<in> set (rows d'). \<exists>s. r ''condition'' = Str s" by blast
    next
      assume "\<exists>r \<in> set (rows d'). \<exists>s. r ''condition'' = Str s"
      then obtain r s where r: "r \<in> set (rows d')" "r ''condition'' = Str s" by blast
      from r(1) have "r ''condition'' \<in> set (map (\<lambda>r. r ''condition'') (rows d'))"
        by simp
      then have "Str s \<in> set (map (\<lambda>r. r ''condition'') (rows d'))"
        by (simp only: r(2))
      then show "\<exists>s. Str s \<in> set (map (\<lambda>r. r ''condition'') (rows d'))" ..
    qed
    moreover have "map (\<lambda>r. r ''condition'') (rows d') = [] \<longleftrightarrow> rows d' = []"
      by (rule map_is_Nil_conv)
    ultimately show ?thesis
      by (simp only: str_accessor_ok_iff column_values_def)
  qed
  have a: "load_dataset fs = Inl FileNotFound \<longleftrightarrow> fs ''dataset.csv'' = None"
    by (simp add: load_dataset_def Let_def split: option.splits csv_file.splits)
  have b: "load_dataset fs = Inl MissingColumns \<longleftrightarrow>
        (\<exists>d. fs ''dataset.csv'' = Some (Table d) \<and>
           (''condition'' \<notin> set (columns d) \<or>
            \<not> (\<exists>c \<in> set (columns d). startswith (py_lower c) ''symptom'')))"
    by (auto simp: load_dataset_def Let_def ne split: option.splits csv_file.splits)
  have c: "load_dataset fs = Inl ReadError \<longleftrightarrow> fs ''dataset.csv'' = Some Unreadable"
    by (simp add: load_dataset_def Let_def split: option.splits csv_file.splits)
  have e: "load_dataset fs = Inl AttributeError \<longleftrightarrow>
        (\<exists>d. fs ''dataset.csv'' = Some (Table d) \<and> ''condition'' \<in> set (columns d)
           \<and> (\<exists>c \<in> set (columns d). startswith (py_lower c) ''symptom'')
           \<and> rows d \<noteq> [] \<and> (\<forall>r \<in> set (rows d). \<forall>s. r ''condition'' \<noteq> Str s))"
    by (auto simp: load_dataset_def Let_def ne ok split: option.splits csv_file.splits)
  have f: "fs ''dataset.csv'' = Some (Table d) \<and> ''condition'' \<in> set (columns d)
        \<and> (\<exists>c \<in> set (columns d). startswith (py_lower c) ''symptom'')
        \<and> (rows d = [] \<or> (\<exists>r \<in> set (rows d). \<exists>s. r ''condition'' = Str s)) \<longrightarrow>
        (\<exists>st. load_dataset fs = Inr st
           \<and> symptom_cols st = filter (\<lambda>c. startswith (py_lower c) ''symptom'') (columns d)
           \<and> columns (df st) = columns d
           \<and> rows (df st) =
               map (\<lambda>r0 c. if c \<in> set (symptom_cols st) then symptom_cell (r0 c)
                           else if c = ''condition'' then str_strip (r0 c) else r0 c) (rows d))"
  proof
    assume h: "fs ''dataset.csv'' = Some (Table d) \<and> ''condition'' \<in> set (columns d)
        \<and> (\<exists>c \<in> set (columns d). startswith (py_lower c) ''symptom'')
        \<and> (rows d = [] \<or> (\<exists>r \<in> set (rows d). \<exists>s. r ''condition'' = Str s))"
    then have "filter is_symptom_col (columns d) \<noteq> []" by (simp add: ne)
    moreover from h have "str_accessor_ok (column_values d ''condition'')" by (simp only: ok)
    ultimately have l: "load_dataset fs =
       Inr \<lparr>df = d\<lparr>rows := map (\<lambda>r0 c. if is_symptom_col c \<and> c \<in> set (columns d) then symptom_cell (r0 c)
                                    else if c = ''condition'' then str_strip (r0 c) else r0 c) (rows d)\<rparr>,
            symptom_cols = filter is_symptom_col (columns d)\<rparr>"
      using h by (intro load_dataset_Inr) simp_all
    show "\<exists>st. load_dataset fs = Inr st
           \<and> symptom_cols st = filter (\<lambda>c. startswith (py_lower c) ''symptom'') (columns d)
           \<and> columns (df st) = columns d
           \<and> rows (df st) =
               map (\<lambda>r0 c. if c \<in> set (symptom_cols st) then symptom_cell (r0 c)
                           else if c = ''condition'' then str_strip (r0 c) else r0 c) (rows d)"
      unfolding l by (auto simp: sym intro!: ext)
  qed
  have g: "(case load_dataset [''dataset.csv'' \<mapsto> Table angina_cold_table] of
        Inl e \<Rightarrow> False
      | Inr st \<Rightarrow>
          symptom_cols st = [''Symptom_1'', ''SYMPTOM_2'']
          \<and> map (\<lambda>r. map r (columns (df st))) (rows (df st)) =
              [[Str ''Angina'', Str ''chest_pain'', Str ''nan'', Str ''Sore_Throat''],
               [Str ''Cold'', Str ''sore_throat'', Str '''', Num ''3'']])"
    by code_simp
  from a b c e f g show ?thesis by (intro conjI)
qed

theorem load_dataset_outcome_witness:
  "load_dataset [''dataset.csv'' \<mapsto> Table numeric_condition_table] = Inl AttributeError
   \<and> load_dataset [''dataset.csv'' \<mapsto> Unreadable] = Inl ReadError
   \<and> load_dataset [''data.csv'' \<mapsto> Table flu_cold_table] = Inl FileNotFound
   \<and> (\<exists>st. load_dataset [''dataset.csv'' \<mapsto> Table flu_cold_table] = Inr st
         \<and> symptom_cols st = [''Symptom_1'', ''Symptom_2'']
         \<and> columns (df st) = [''condition'', ''Symptom_1'', ''Symptom_2''])"
proof -
  have s1: "startswith (py_lower ''Symptom_1'') ''symptom''" by code_simp
  have n: "[''dataset.csv'' \<mapsto> Table numeric_condition_table] ''dataset.csv'' = Some (Table numeric_condition_table)
      \<and> ''condition'' \<in> set (columns numeric_condition_table)
      \<and> (\<exists>c \<in> set (columns numeric_condition_table). startswith (py_lower c) ''symptom'')
      \<and> rows numeric_condition_table \<noteq> []
      \<and> (\<forall>r \<in> set (rows numeric_condition_table). \<forall>s. r ''condition'' \<noteq> Str s)"
    using s1 by (simp add: numeric_condition_table_def)
  have 1: "load_dataset [''dataset.csv'' \<mapsto> Table numeric_condition_table] = Inl AttributeError"
    using load_dataset_outcome [of "[''dataset.csv'' \<mapsto> Table numeric_condition_table]" numeric_condition_table] n
    by blast
  have 2: "load_dataset [''dataset.csv'' \<mapsto> Unreadable] = Inl ReadError"
    using load_dataset_outcome [of "[''dataset.csv'' \<mapsto> Unreadable]" flu_cold_table] by simp
  have 3: "load_dataset [''data.csv'' \<mapsto> Table flu_cold_table] = Inl FileNotFound"
    using load_dataset_outcome [of "[''data.csv'' \<mapsto> Table flu_cold_table]" flu_cold_table] by simp
  have h: "[''dataset.csv'' \<mapsto> Table flu_cold_table] ''dataset.csv'' = Some (Table flu_cold_table)
        \<and> ''condition'' \<in> set (columns flu_cold_table)
        \<and> (\<exists>c \<in> set (columns flu_cold_table). startswith (py_lower c) ''symptom'')
        \<and> (rows flu_cold_table = [] \<or> (\<exists>r \<in> set (rows flu_cold_table). \<exists>s. r ''condition'' = Str s))"
    using s1 by (simp add: flu_cold_table_def)
  have f: "filter (\<lambda>c. startswith (py_lower c) ''symptom'') (columns flu_cold_table) = [''Symptom_1'', ''Symptom_2'']"
    by code_simp
  have c: "columns flu_cold_table = [''condition'', ''Symptom_1'', ''Symptom_2'']"
    by code_simp
  from load_dataset_outcome [of "[''dataset.csv'' \<mapsto> Table flu_cold_table]" flu_cold_table] h
  obtain st where "load_dataset [''dataset.csv'' \<mapsto> Table flu_cold_table] = Inr st"
    "symptom_cols st = filter (\<lambda>c. startswith (py_lower c) ''symptom'') (columns flu_cold_table)"
    "columns (df st) = columns flu_cold_table"
    by blast
  with f c have "\<exists>st. load_dataset [''dataset.csv'' \<mapsto> Table flu_cold_table] = Inr st
         \<and> symptom_cols st = [''Symptom_1'', ''Symptom_2'']
         \<and> columns (df st) = [''condition'', ''Symptom_1'', ''Symptom_2'']"
    by simp
  with 1 2 3 show ?thesis by (intro conjI)
qed

section \<open>The option of a token\<close>

lemma dropna_set: "s \<in> set (dropna vs) \<longleftrightarrow> Str s \<in> set vs"
  by (induction vs rule: dropna.induct) auto

lemma unique_set: "set (unique xs) = set xs"
  by (simp add: unique_def)

lemma options_member:
  "c \<in> set cols \<Longrightarrow> t \<in> set (g c) \<Longrightarrow> t \<noteq> n \<Longrightarrow>
     f t \<in> set (sort (remdups (concat (map (\<lambda>col. map f (filter (\<lambda>s. s \<noteq> n) (g col))) cols))))"
  by auto

lemma all_symptoms_member:
  assumes "r \<in> set (rows (df st))" "c \<in> set (symptom_cols st)" "r c = Str t" "t \<noteq> ''nan''"
  shows "py_replace CHR ''_'' CHR '' '' t \<in> set (all_symptoms st)"
proof -
  from assms(1) have "r c \<in> set (column_values (df st) c)"
    unfolding column_values_def by simp
  then have "Str t \<in> set (column_values (df st) c)"
    by (simp only: assms(3))
  then have "t \<in> set (unique (dropna (column_values (df st) c)))"
    by (simp only: unique_set dropna_set)
  with assms(2) show ?thesis
    unfolding all_symptoms_def using assms(4) by (rule options_member)
qed

text \<open>
  C3. Selecting the option shown for a token of the table does not always retrieve
  the row of that token. The cell \<open>Chest Pain\<close> is loaded as \<open>chest pain\<close> and offered
  as \<open>chest pain\<close>, whose query token is \<open>chest_pain\<close>; the cell \<open>_fever\<close> is offered
  as \<open>fever\<close> behind a space, whose query token is \<open>fever\<close>. Each of the two options
  retrieves nothing.
\<close>

theorem retrieve_spaced_token:
  "case load_dataset [''dataset.csv'' \<mapsto> Table spaced_token_table] of
     Inl e \<Rightarrow> False
   | Inr st \<Rightarrow>
       map (\<lambda>r. (r ''condition'', r ''Symptom_1'')) (rows (df st)) =
         [(Str ''Angina'', Str ''chest pain''), (Str ''Flu'', Str ''_fever'')]
       \<and> all_symptoms st = ['' fever'', ''chest pain'']
       \<and> py_replace CHR ''_'' CHR '' '' ''chest pain'' = ''chest pain''
       \<and> retrieve_conditions st [''chest pain''] = []
       \<and> py_replace CHR ''_'' CHR '' '' ''_fever'' = '' fever''
       \<and> retrieve_conditions st ['' fever''] = []"
  by code_simp

text \<open>
  C3, as amended. Let \<open>t\<close> be a symptom token of the loaded table, neither empty nor
  \<open>nan\<close>, that has no space in it and no underscore at either end. Then \<open>t\<close> with its
  underscores written as spaces is among the options of the multiselect, and
  selecting it retrieves the condition of every row that has \<open>t\<close> in a symptom column.
\<close>

theorem retrieve_selected_option:
  assumes "load_dataset fs = Inr st"
    and "r \<in> set (rows (df st))" and "c \<in> set (symptom_cols st)" and "r c = Str t"
    and "t \<noteq> ''''" and "t \<noteq> ''nan''"
    and "CHR '' '' \<notin> set t" and "hd t \<noteq> CHR ''_''" and "last t \<noteq> CHR ''_''"
  shows "py_replace CHR ''_'' CHR '' '' t \<in> set (all_symptoms st)
     \<and> r ''condition'' \<in> set (retrieve_conditions st [py_replace CHR ''_'' CHR '' '' t])"
proof
  from assms(2,3,4,6) show "py_replace CHR ''_'' CHR '' '' t \<in> set (all_symptoms st)"
    by (rule all_symptoms_member)
next
  from assms(3,4,5,6) have m: "Str t \<in> row_symptoms (symptom_cols st) r"
    unfolding row_symptoms_iff by auto
  from loaded_token [OF assms(1,2) m] have l: "py_lower t = t" "py_strip t = t" "t \<noteq> []"
    by simp_all
  from l assms(7,8,9) have "query_token (py_replace CHR ''_'' CHR '' '' t) = t"
    by (intro query_token_roundtrip) simp_all
  with m have "Str (query_token (py_replace CHR ''_'' CHR '' '' t)) \<in> row_symptoms (symptom_cols st) r"
    by simp
  with assms(2) show "r ''condition'' \<in> set (retrieve_conditions st [py_replace CHR ''_'' CHR '' '' t])"
    by (rule retrieve_conditions_member)
qed

theorem retrieve_selected_option_witness:
  "\<exists>st. load_dataset [''dataset.csv'' \<mapsto> Table angina_cold_table] = Inr st
      \<and> ''chest pain'' \<in> set (all_symptoms st)
      \<and> Str ''Angina'' \<in> set (retrieve_conditions st [''chest pain''])"
proof -
  let ?fs = "[''dataset.csv'' \<mapsto> Table angina_cold_table]"
  have s1: "is_symptom_col ''Symptom_1''" by code_simp
  have s2: "is_symptom_col ''SYMPTOM_2''" by code_simp
  have s3: "\<not> is_symptom_col ''notes''" by code_simp
  have c: "\<not> is_symptom_col ''condition''" by code_simp
  have cell: "symptom_cell (Str '' Chest_Pain'') = Str ''chest_pain''" by code_simp
  have strip: "py_strip '' Angina  '' = ''Angina''" by code_simp
  have u: "py_replace CHR ''_'' CHR '' '' ''chest_pain'' = ''chest pain''" by code_simp
  have "filter is_symptom_col (columns angina_cold_table) \<noteq> []"
    by (simp add: angina_cold_table_def s1)
  then have "load_dataset ?fs =
     Inr \<lparr>df = angina_cold_table\<lparr>rows := map (\<lambda>r0 c. if is_symptom_col c \<and> c \<in> set (columns angina_cold_table) then symptom_cell (r0 c)
                                    else if c = ''condition'' then str_strip (r0 c) else r0 c) (rows angina_cold_table)\<rparr>,
          symptom_cols = filter is_symptom_col (columns angina_cold_table)\<rparr>" (is "_ = Inr ?st")
    by (intro load_dataset_Inr) (simp_all add: angina_cold_table_def str_accessor_ok_def column_values_def)
  then have l: "load_dataset ?fs = Inr ?st" .
  let ?r = "hd (rows (df ?st))"
  have r: "?r \<in> set (rows (df ?st))" by (simp add: angina_cold_table_def)
  have col: "''Symptom_1'' \<in> set (symptom_cols ?st)" by (simp add: angina_cold_table_def s1)
  have v: "?r ''Symptom_1'' = Str ''chest_pain''" and cond: "?r ''condition'' = Str ''Angina''"
    by (simp_all add: angina_cold_table_def s1 c cell strip)
  from retrieve_selected_option [OF l r col v]
  have "py_replace CHR ''_'' CHR '' '' ''chest_pain'' \<in> set (all_symptoms ?st)
     \<and> ?r ''condition'' \<in> set (retrieve_conditions ?st [py_replace CHR ''_'' CHR '' '' ''chest_pain''])"
    by simp
  then have "''chest pain'' \<in> set (all_symptoms ?st)
     \<and> Str ''Angina'' \<in> set (retrieve_conditions ?st [''chest pain''])"
    by (simp only: cond u)
  with l show ?thesis by blast
qed

section \<open>Calls on the store\<close>










section \<open>The fallback result\<close>

lemma str_items_JStr: "str_items (map JStr xs) = Some xs"
  by (induction xs) simp_all

lemma render_fallback:
  "render (fallback names) =
     Inr \<lparr>possible_conditions = py_join '', '' (if names = [] then [''Unknown''] else names),
          next_steps = JStr ''Consult a healthcare professional.'',
          disclaimer = JStr ''This is not medical advice''\<rparr>"
  by (simp add: render_def fallback_def str_items_JStr)

lemma missing_variables_input:
  \<open>missing_variables [''input''] = [''\<newline>  "possible_conditions"'']\<close>
  by code_simp

lemma try_block_raises: "try_block json_loads response = None"
  by (simp add: try_block_def missing_variables_input)

text \<open>
  C4. The braces of the JSON sample in the system message open a field of the
  template, named by the text up to the first colon, and line 194 gives the template
  \<open>input\<close> only: formatting the prompt raises KeyError inside the \<open>try\<close> before the
  model is called. So whatever the call would do (fail, time out, answer text that is
  not JSON, or answer anything else), when a symptom is selected and line 187 has
  joined the retrieved conditions, the three cards show the fallback: the retrieved
  conditions joined by commas, or \<open>Unknown\<close> when there are none, then
  \<open>Consult a healthcare professional.\<close> and \<open>This is not medical advice\<close>. Nothing is
  reported as an error.
\<close>

theorem analyze_fallback:
  assumes \<open>selected \<noteq> []\<close>
    and \<open>cells_text (fst (retrieve_conditions_call enum selected st)) = Some names\<close>
  shows \<open>analyze enum json_loads response st selected =
     Shown \<lparr>possible_conditions = py_join '', '' (if names = [] then [''Unknown''] else names),
            next_steps = JStr ''Consult a healthcare professional.'',
            disclaimer = JStr ''This is not medical advice''\<rparr>
   \<and> missing_variables [''input''] = [''\<newline>  "possible_conditions"'']\<close>
  using assms
  by (simp add: analyze_def Let_def render_fallback try_block_raises missing_variables_input)

theorem analyze_fallback_witness:
  "analyze id (\<lambda>s. None) (Content ''Sorry, I cannot help with that.'') flu_cold_state [''fever''] =
     Shown \<lparr>possible_conditions = ''Flu'',
            next_steps = JStr ''Consult a healthcare professional.'',
            disclaimer = JStr ''This is not medical advice''\<rparr>
   \<and> analyze id (\<lambda>s. None) Raised flu_cold_state [''headache''] =
     Shown \<lparr>possible_conditions = ''Unknown'',
            next_steps = JStr ''Consult a healthcare professional.'',
            disclaimer = JStr ''This is not medical advice''\<rparr>
   \<and> analyze rev (\<lambda>s. Some (JObj [])) (Content ''{}'') flu_cold_state [''cough''] =
     Shown \<lparr>possible_conditions = ''Cold, Flu'',
            next_steps = JStr ''Consult a healthcare professional.'',
            disclaimer = JStr ''This is not medical advice''\<rparr>"
proof -
  have r1: "cells_text (fst (retrieve_conditions_call id [''fever''] flu_cold_state)) = Some [''Flu'']"
    by code_simp
  have r2: "cells_text (fst (retrieve_conditions_call id [''headache''] flu_cold_state)) = Some []"
    by code_simp
  have r3: "cells_text (fst (retrieve_conditions_call rev [''cough''] flu_cold_state)) = Some [''Cold'', ''Flu'']"
    by code_simp
  have j1: "py_join '', '' [''Flu''] = ''Flu''" by (simp add: py_join_def)
  have j2: "py_join '', '' [''Unknown''] = ''Unknown''" by (simp add: py_join_def)
  have j3: "py_join '', '' [''Cold'', ''Flu''] = ''Cold, Flu''" by (simp add: py_join_def)
  have n1: "[''fever''] \<noteq> ([]::string list)" and n2: "[''headache''] \<noteq> ([]::string list)"
    and n3: "[''cough''] \<noteq> ([]::string list)" by simp_all
  from analyze_fallback [OF n1 r1, of "\<lambda>s. None" "Content ''Sorry, I cannot help with that.''"]
  have a: "analyze id (\<lambda>s. None) (Content ''Sorry, I cannot help with that.'') flu_cold_state [''fever''] =
     Shown \<lparr>possible_conditions = ''Flu'',
            next_steps = JStr ''Consult a healthcare professional.'',
            disclaimer = JStr ''This is not medical advice''\<rparr>"
    by (simp add: j1)
  from analyze_fallback [OF n2 r2, of "\<lambda>s. None" Raised]
  have b: "analyze id (\<lambda>s. None) Raised flu_cold_state [''headache''] =
     Shown \<lparr>possible_conditions = ''Unknown'',
            next_steps = JStr ''Consult a healthcare professional.'',
            disclaimer = JStr ''This is not medical advice''\<rparr>"
    by (simp add: j2)
  from analyze_fallback [OF n3 r3, of "\<lambda>s. Some (JObj [])" "Content ''{}''"]
  have c: "analyze rev (\<lambda>s. Some (JObj [])) (Content ''{}'') flu_cold_state [''cough''] =
     Shown \<lparr>possible_conditions = ''Cold, Flu'',
            next_steps = JStr ''Consult a healthcare professional.'',
            disclaimer = JStr ''This is not medical advice''\<rparr>"
    by (simp add: j3)
  from a b c show ?thesis by (intro conjI)
qed

end
